theory Spec2Isabelle
  imports Main
begin

section \<open>Data model\<close>

text \<open>
  The values a capability can hold. The TypeScript source types them as \<open>any\<close>; the
  builders never inspect a value except to compare it with the empty string, so the
  JSON value space (with integer numbers) is enough.
\<close>

datatype jsvalue =
    JUndefined
  | JNull
  | JBoolean bool
  | JNumber int
  | JString string
  | JArray "jsvalue list"
  | JObject "(string \<times> jsvalue) list"

text \<open>
  \<open>interface Capabilities\<close> and \<open>Record<string, any>\<close>: an object read as a map from
  property names to values. Object spread \<open>{...a, ...b}\<close> is \<open>a ++ b\<close>: the properties of
  \<open>b\<close> overwrite those of \<open>a\<close>.
\<close>

type_synonym capabilities = "string \<rightharpoonup> jsvalue"

datatype device_type = Simulator | Real

text \<open>The selected device info, \<open>{name?, platform?}\<close>.\<close>

record device_info =
  info_name :: "string option"
  info_platform :: "string option"

type_synonym device_descriptor = string

datatype driver = AndroidUiautomator2Driver | XCUITestDriver | WebDriverClient

datatype error = Error string

text \<open>Calls to the collaborators that act on the outside world, in the order made.\<close>

datatype call =
    GetDevicesByType device_type
  | ClearSelectedDevice
  | SafeDeleteSession
  | LoadCapabilitiesConfig
  | NewSession
  | CreateSession driver
  | SetSession

text \<open>
  The mutable state the tool works on: the device selection kept by \<open>select-device.js\<close>,
  the session kept by \<open>session-store.js\<close>, and the log of collaborator calls.
\<close>

record state =
  sel_device :: "string option"
  sel_deviceType :: "device_type option"
  sel_deviceInfo :: "device_info option"
  activeSession :: "(driver \<times> string) option"
  calls :: "call list"

record capabilities_config =
  android :: capabilities
  ios :: capabilities

text \<open>
  The collaborators whose code is outside the repository's source files, taken as
  parameters: the iOS device manager, the session teardown, the environment variable
  and file behind the capability config, the embedded drivers and the remote client.
  \<open>readConfigFile\<close> stands for \<open>access\<close>, \<open>readFile\<close> and \<open>JSON.parse\<close> together, and
  \<open>newSession\<close> for parsing the URL and opening the client session: each returns an
  error when any of its steps throws.

  Modelled from the spec: \<open>getDevicesByType\<close> of the device manager, which is not among
  the source files, returns the list of device descriptors of a type.
\<close>

record env =
  getDevicesByType :: "device_type \<Rightarrow> device_descriptor list"
  safeDeleteSession ::
    "(driver \<times> string) option \<Rightarrow> (error + unit) \<times> (driver \<times> string) option"
  CAPABILITIES_CONFIG :: "string option"
  readConfigFile :: "string \<Rightarrow> error + capabilities_config"
  createSession :: "driver \<Rightarrow> capabilities \<Rightarrow> error + string"
  newSession :: "string \<Rightarrow> capabilities \<Rightarrow> error + string"

section \<open>JavaScript primitives used by the source\<close>

text \<open>Truthiness of a \<open>string | undefined\<close>: undefined and the empty string are falsy.\<close>

definition truthy :: "string option \<Rightarrow> bool" where
  "truthy s = (case s of None \<Rightarrow> False | Some u \<Rightarrow> u \<noteq> [])"

text \<open>Spreading an optional object: \<open>...undefined\<close> adds nothing.\<close>

definition spread :: "capabilities option \<Rightarrow> capabilities" where
  "spread obj = (case obj of None \<Rightarrow> Map.empty | Some m \<Rightarrow> m)"

text \<open>
  \<open>String.prototype.trim\<close> on the code units below 256: tab, line feed, vertical tab,
  form feed, carriage return, space and no-break space are stripped from both ends.
\<close>

definition isWhiteSpace :: "char \<Rightarrow> bool" where
  "isWhiteSpace c =
     (c \<in> set [CHR 0x09, CHR 0x0A, CHR 0x0B, CHR 0x0C, CHR 0x0D, CHR 0x20, CHR 0xA0])"

definition trim :: "string \<Rightarrow> string" where
  "trim s = rev (dropWhile isWhiteSpace (rev (dropWhile isWhiteSpace s)))"

text \<open>A template literal interpolating a non-negative integer prints it in decimal.\<close>

definition digitChar :: "nat \<Rightarrow> char" where
  "digitChar d = ''0123456789'' ! d"

fun showNat :: "nat \<Rightarrow> string" where
  "showNat n = (if n < 10 then [digitChar n] else showNat (n div 10) @ [digitChar (n mod 10)])"

declare showNat.simps [simp del]

section \<open>Device selection (select-device.js)\<close>

definition getSelectedDevice :: "state \<Rightarrow> string option" where
  "getSelectedDevice st = sel_device st"

definition getSelectedDeviceType :: "state \<Rightarrow> device_type option" where
  "getSelectedDeviceType st = sel_deviceType st"

definition getSelectedDeviceInfo :: "state \<Rightarrow> device_info option" where
  "getSelectedDeviceInfo st = sel_deviceInfo st"

text \<open>
  Modelled from the spec: \<open>clearSelectedDevice\<close> of \<open>select-device.js\<close>, which is not
  among the source files. The spec says that the device-selection state's identifier is
  cleared; the call is logged.
\<close>

definition clearSelectedDevice :: "state \<Rightarrow> state" where
  "clearSelectedDevice st =
     st\<lparr>sel_device := None, calls := calls st @ [ClearSelectedDevice]\<rparr>"

section \<open>create-session.ts\<close>

subsection \<open>filterEmptyCapabilities\<close>

text \<open>
  Copies the object, then visits every own key and deletes it when its value is strictly
  equal to the empty string. On the map this is, key by key, the map without the keys
  that hold the empty string.
\<close>

definition filterEmptyCapabilities :: "capabilities \<Rightarrow> capabilities" where
  "filterEmptyCapabilities capabilities =
     (\<lambda>key. if capabilities key = Some (JString []) then None else capabilities key)"

subsection \<open>buildAndroidCapabilities\<close>

definition androidDefaultCaps :: capabilities where
  "androidDefaultCaps =
     [''platformName'' \<mapsto> JString ''Android'',
      ''appium:automationName'' \<mapsto> JString ''UiAutomator2'',
      ''appium:deviceName'' \<mapsto> JString ''Android Device'']"

text \<open>\<open>...(selectedDeviceUdid && { 'appium:udid': selectedDeviceUdid })\<close>\<close>

definition udidCaps :: "string option \<Rightarrow> capabilities" where
  "udidCaps selectedDeviceUdid =
     (case selectedDeviceUdid of
        None \<Rightarrow> Map.empty
      | Some u \<Rightarrow> if u \<noteq> [] then [''appium:udid'' \<mapsto> JString u] else Map.empty)"

text \<open>The merged object \<open>capabilities\<close> of lines 92 to 97, before the filter.\<close>

definition androidMergedCaps ::
  "capabilities \<Rightarrow> capabilities option \<Rightarrow> string option \<Rightarrow> capabilities" where
  "androidMergedCaps configCaps customCaps selectedDeviceUdid =
     androidDefaultCaps ++ configCaps ++ udidCaps selectedDeviceUdid ++ spread customCaps"

definition buildAndroidCapabilities ::
  "capabilities \<Rightarrow> capabilities option \<Rightarrow> bool \<Rightarrow> state \<Rightarrow> capabilities \<times> state" where
  "buildAndroidCapabilities configCaps customCaps isRemoteServer st =
     (let selectedDeviceUdid = (if isRemoteServer then None else getSelectedDevice st);
          capabilities = androidMergedCaps configCaps customCaps selectedDeviceUdid;
          st' = (if truthy selectedDeviceUdid then clearSelectedDevice st else st)
      in (filterEmptyCapabilities capabilities, st'))"

text \<open>The older \<open>buildAndroidCapabilities\<close>, which takes no remote flag.\<close>

definition buildAndroidCapabilities_old ::
  "capabilities \<Rightarrow> capabilities option \<Rightarrow> state \<Rightarrow> capabilities \<times> state" where
  "buildAndroidCapabilities_old configCaps customCaps st =
     (let selectedDeviceUdid = getSelectedDevice st;
          capabilities =
            androidDefaultCaps ++ configCaps ++ udidCaps selectedDeviceUdid ++ spread customCaps;
          st' = (if truthy selectedDeviceUdid then clearSelectedDevice st else st)
      in (filterEmptyCapabilities capabilities, st'))"

subsection \<open>validateIOSDeviceSelection\<close>

definition ambiguousSelectionMessage :: "device_type \<Rightarrow> nat \<Rightarrow> string" where
  "ambiguousSelectionMessage deviceType n =
     ''Multiple iOS '' @ (if deviceType = Simulator then ''simulators'' else ''devices'') @
     '' found ('' @ showNat n @
     ''). Please use the select_device tool to choose which device to use before creating a session.''"

definition validateIOSDeviceSelection ::
  "env \<Rightarrow> device_type option \<Rightarrow> state \<Rightarrow> (error + unit) \<times> state" where
  "validateIOSDeviceSelection e deviceType st =
     (case deviceType of
        None \<Rightarrow> (Inr (), st)
      | Some t \<Rightarrow>
          (let devices = getDevicesByType e t;
               st1 = st\<lparr>calls := calls st @ [GetDevicesByType t]\<rparr>
           in if length devices > 1 then
                (let selectedDevice = getSelectedDevice st1
                 in if \<not> truthy selectedDevice
                    then (Inl (Error (ambiguousSelectionMessage t (length devices))), st1)
                    else (Inr (), st1))
              else (Inr (), st1)))"

subsection \<open>buildIOSCapabilities\<close>

text \<open>\<open>selectedDeviceInfo?.name || 'iPhone Simulator'\<close>\<close>

definition iosDeviceName :: "device_info option \<Rightarrow> string" where
  "iosDeviceName selectedDeviceInfo =
     (case selectedDeviceInfo of
        None \<Rightarrow> ''iPhone Simulator''
      | Some i \<Rightarrow>
          (case info_name i of
             None \<Rightarrow> ''iPhone Simulator''
           | Some n \<Rightarrow> if n \<noteq> [] then n else ''iPhone Simulator''))"

definition iosDefaultCaps :: "string \<Rightarrow> capabilities" where
  "iosDefaultCaps deviceName =
     [''platformName'' \<mapsto> JString ''iOS'',
      ''appium:automationName'' \<mapsto> JString ''XCUITest'',
      ''appium:deviceName'' \<mapsto> JString deviceName]"

text \<open>
  \<open>selectedDeviceInfo?.platform && selectedDeviceInfo.platform.trim() !== ''
     ? selectedDeviceInfo.platform : undefined\<close>
\<close>

definition iosPlatformVersion :: "device_info option \<Rightarrow> string option" where
  "iosPlatformVersion selectedDeviceInfo =
     (case selectedDeviceInfo of
        None \<Rightarrow> None
      | Some i \<Rightarrow>
          (case info_platform i of
             None \<Rightarrow> None
           | Some p \<Rightarrow> if p \<noteq> [] \<and> trim p \<noteq> [] then Some p else None))"

text \<open>\<open>...(platformVersion && { 'appium:platformVersion': platformVersion })\<close>\<close>

definition platformVersionCaps :: "string option \<Rightarrow> capabilities" where
  "platformVersionCaps platformVersion =
     (case platformVersion of
        None \<Rightarrow> Map.empty
      | Some p \<Rightarrow> if p \<noteq> [] then [''appium:platformVersion'' \<mapsto> JString p] else Map.empty)"

text \<open>\<open>...(deviceType === 'simulator' && { ... })\<close>\<close>

definition simulatorCaps :: "device_type option \<Rightarrow> capabilities" where
  "simulatorCaps deviceType =
     (if deviceType = Some Simulator
      then [''appium:usePrebuiltWDA'' \<mapsto> JBoolean True,
            ''appium:wdaStartupRetries'' \<mapsto> JNumber 4,
            ''appium:wdaStartupRetryInterval'' \<mapsto> JNumber 20000]
      else Map.empty)"

text \<open>The merged object \<open>capabilities\<close> of lines 161 to 173, before the filter.\<close>

definition iosMergedCaps ::
  "capabilities \<Rightarrow> capabilities option \<Rightarrow> device_type option \<Rightarrow> string option \<Rightarrow>
     device_info option \<Rightarrow> capabilities" where
  "iosMergedCaps configCaps customCaps deviceType selectedDeviceUdid selectedDeviceInfo =
     iosDefaultCaps (iosDeviceName selectedDeviceInfo) ++
     platformVersionCaps (iosPlatformVersion selectedDeviceInfo) ++
     configCaps ++
     udidCaps selectedDeviceUdid ++
     simulatorCaps deviceType ++
     spread customCaps"

definition buildIOSCapabilities ::
  "env \<Rightarrow> capabilities \<Rightarrow> capabilities option \<Rightarrow> bool \<Rightarrow> state \<Rightarrow>
     (error + capabilities) \<times> state" where
  "buildIOSCapabilities e configCaps customCaps isRemoteServer st =
     (let deviceType = (if isRemoteServer then None else getSelectedDeviceType st)
      in case validateIOSDeviceSelection e deviceType st of
           (Inl err, st1) \<Rightarrow> (Inl err, st1)
         | (Inr _, st1) \<Rightarrow>
             (let selectedDeviceUdid = (if isRemoteServer then None else getSelectedDevice st1);
                  selectedDeviceInfo =
                    (if isRemoteServer then None else getSelectedDeviceInfo st1);
                  capabilities =
                    iosMergedCaps configCaps customCaps deviceType selectedDeviceUdid
                      selectedDeviceInfo;
                  st2 = (if truthy selectedDeviceUdid then clearSelectedDevice st1 else st1)
              in (Inr (filterEmptyCapabilities capabilities), st2)))"

text \<open>
  The older \<open>buildIOSCapabilities\<close>: no remote flag, and the default device name is
  always \<open>iPhone Simulator\<close>.
\<close>

definition buildIOSCapabilities_old ::
  "env \<Rightarrow> capabilities \<Rightarrow> capabilities option \<Rightarrow> state \<Rightarrow> (error + capabilities) \<times> state" where
  "buildIOSCapabilities_old e configCaps customCaps st =
     (let deviceType = getSelectedDeviceType st
      in case validateIOSDeviceSelection e deviceType st of
           (Inl err, st1) \<Rightarrow> (Inl err, st1)
         | (Inr _, st1) \<Rightarrow>
             (let selectedDeviceUdid = getSelectedDevice st1;
                  selectedDeviceInfo = getSelectedDeviceInfo st1;
                  capabilities =
                    iosDefaultCaps ''iPhone Simulator'' ++
                    platformVersionCaps (iosPlatformVersion selectedDeviceInfo) ++
                    configCaps ++
                    udidCaps selectedDeviceUdid ++
                    simulatorCaps deviceType ++
                    spread customCaps;
                  st2 = (if truthy selectedDeviceUdid then clearSelectedDevice st1 else st1)
              in (Inr (filterEmptyCapabilities capabilities), st2)))"

subsection \<open>The create_session entry point\<close>

text \<open>The tool arguments \<open>{platform, capabilities?, remoteServerUrl?}\<close>.\<close>

record args =
  arg_platform :: string
  arg_capabilities :: "capabilities option"
  arg_remoteServerUrl :: "string option"

text \<open>
  What a successful call reports: the session id and the final capabilities, from which
  the text summary and the dashboard resource are rendered.
\<close>

record response =
  resp_sessionId :: string
  resp_capabilities :: capabilities

text \<open>
  Modelled from the spec: \<open>hasActiveSession\<close> and \<open>setSession\<close> of \<open>session-store.js\<close>,
  which is not among the source files. The store holds at most one session handle, and
  registering a handle replaces whatever was there.
\<close>

definition hasActiveSession :: "state \<Rightarrow> bool" where
  "hasActiveSession st = (activeSession st \<noteq> None)"

definition setSession :: "driver \<Rightarrow> string \<Rightarrow> state \<Rightarrow> state" where
  "setSession d sessionId st =
     st\<lparr>activeSession := Some (d, sessionId), calls := calls st @ [SetSession]\<rparr>"

text \<open>
  The teardown call: its outcome and what it leaves in the store are the collaborator's.
\<close>

definition callSafeDeleteSession :: "env \<Rightarrow> state \<Rightarrow> (error + unit) \<times> state" where
  "callSafeDeleteSession e st =
     (case safeDeleteSession e (activeSession st) of
        (r, store) \<Rightarrow> (r, st\<lparr>activeSession := store, calls := calls st @ [SafeDeleteSession]\<rparr>))"

definition emptyConfig :: capabilities_config where
  "emptyConfig = \<lparr>android = Map.empty, ios = Map.empty\<rparr>"

text \<open>
  \<open>loadCapabilitiesConfig\<close>: no path configured, or any failure to access, read or parse
  the file, gives the empty config. The parsed content is taken at its declared type.
\<close>

definition loadCapabilitiesConfig :: "env \<Rightarrow> state \<Rightarrow> capabilities_config \<times> state" where
  "loadCapabilitiesConfig e st =
     (let st1 = st\<lparr>calls := calls st @ [LoadCapabilitiesConfig]\<rparr>
      in case CAPABILITIES_CONFIG e of
           None \<Rightarrow> (emptyConfig, st1)
         | Some configPath \<Rightarrow>
             if configPath = [] then (emptyConfig, st1)
             else (case readConfigFile e configPath of
                     Inl err \<Rightarrow> (emptyConfig, st1)
                   | Inr config \<Rightarrow> (config, st1)))"

definition createDriverForPlatform :: "string \<Rightarrow> error + driver" where
  "createDriverForPlatform platform =
     (if platform = ''android'' then Inr AndroidUiautomator2Driver
      else if platform = ''ios'' then Inr XCUITestDriver
      else Inl (Error (''Unsupported platform: '' @ platform @
                       ''. Please choose 'android' or 'ios'.'')))"

definition createDriverSession ::
  "env \<Rightarrow> driver \<Rightarrow> capabilities \<Rightarrow> state \<Rightarrow> (error + string) \<times> state" where
  "createDriverSession e d capabilities st =
     (createSession e d capabilities, st\<lparr>calls := calls st @ [CreateSession d]\<rparr>)"

text \<open>The outer \<open>catch\<close>: every error leaves as \<open>Failed to create session: <message>\<close>.\<close>

definition failedToCreate :: "error \<Rightarrow> error" where
  "failedToCreate err = (case err of Error m \<Rightarrow> Error (''Failed to create session: '' @ m))"

text \<open>The local branch of the dispatch (lines 329 to 338).\<close>

definition localSession ::
  "env \<Rightarrow> string \<Rightarrow> capabilities \<Rightarrow> state \<Rightarrow> (error + response) \<times> state" where
  "localSession e platform finalCapabilities st =
     (case createDriverForPlatform platform of
        Inl err \<Rightarrow> (Inl err, st)
      | Inr d \<Rightarrow>
          (case createDriverSession e d finalCapabilities st of
             (Inl err, st1) \<Rightarrow> (Inl err, st1)
           | (Inr sessionId, st1) \<Rightarrow>
               (Inr \<lparr>resp_sessionId = sessionId, resp_capabilities = finalCapabilities\<rparr>,
                setSession d sessionId st1)))"

text \<open>The remote branch of the dispatch (lines 318 to 328).\<close>

definition remoteSession ::
  "env \<Rightarrow> string \<Rightarrow> capabilities \<Rightarrow> state \<Rightarrow> (error + response) \<times> state" where
  "remoteSession e url finalCapabilities st =
     (let st1 = st\<lparr>calls := calls st @ [NewSession]\<rparr>
      in case newSession e url finalCapabilities of
           Inl err \<Rightarrow> (Inl err, st1)
         | Inr sessionId \<Rightarrow>
             (Inr \<lparr>resp_sessionId = sessionId, resp_capabilities = finalCapabilities\<rparr>,
              setSession WebDriverClient sessionId st1))"

text \<open>
  Lines 293 to 372 of the current \<open>execute\<close>: everything after the teardown of a prior
  session, inside the outer \<open>try\<close>.
\<close>

definition createNewSession :: "env \<Rightarrow> args \<Rightarrow> state \<Rightarrow> (error + response) \<times> state" where
  "createNewSession e a st =
     (let platform = arg_platform a;
          customCapabilities = arg_capabilities a;
          remoteServerUrl = arg_remoteServerUrl a;
          (configCapabilities, st1) = loadCapabilitiesConfig e st;
          platformCaps =
            (if platform = ''android'' then android configCapabilities
             else ios configCapabilities);
          (built, st2) =
            (if platform = ''android''
             then (case buildAndroidCapabilities platformCaps customCapabilities
                          (truthy remoteServerUrl) st1 of
                     (c, s) \<Rightarrow> (Inr c, s))
             else buildIOSCapabilities e platformCaps customCapabilities
                    (truthy remoteServerUrl) st1)
      in case built of
           Inl err \<Rightarrow> (Inl err, st2)
         | Inr finalCapabilities \<Rightarrow>
             (case remoteServerUrl of
                None \<Rightarrow> localSession e platform finalCapabilities st2
              | Some url \<Rightarrow>
                  if url \<noteq> [] then remoteSession e url finalCapabilities st2
                  else localSession e platform finalCapabilities st2))"

text \<open>
  The current \<open>execute\<close>: a failing teardown of the prior session is caught and ignored
  by the inner \<open>try\<close>; every other error is rethrown by the outer \<open>catch\<close>.
\<close>

definition execute :: "env \<Rightarrow> args \<Rightarrow> state \<Rightarrow> (error + response) \<times> state" where
  "execute e a st =
     (let st1 = (if hasActiveSession st then snd (callSafeDeleteSession e st) else st)
      in case createNewSession e a st1 of
           (Inl err, st2) \<Rightarrow> (Inl (failedToCreate err), st2)
         | (Inr r, st2) \<Rightarrow> (Inr r, st2))"

text \<open>
  The older \<open>execute\<close>: no remote branch, and the teardown of the prior session is
  awaited directly inside the outer \<open>try\<close>, with no \<open>try\<close> of its own.
\<close>

definition createNewSession_old ::
  "env \<Rightarrow> args \<Rightarrow> state \<Rightarrow> (error + response) \<times> state" where
  "createNewSession_old e a st =
     (let platform = arg_platform a;
          customCapabilities = arg_capabilities a;
          (configCapabilities, st1) = loadCapabilitiesConfig e st;
          platformCaps =
            (if platform = ''android'' then android configCapabilities
             else ios configCapabilities);
          (built, st2) =
            (if platform = ''android''
             then (case buildAndroidCapabilities_old platformCaps customCapabilities st1 of
                     (c, s) \<Rightarrow> (Inr c, s))
             else buildIOSCapabilities_old e platformCaps customCapabilities st1)
      in case built of
           Inl err \<Rightarrow> (Inl err, st2)
         | Inr finalCapabilities \<Rightarrow> localSession e platform finalCapabilities st2)"

definition execute_old :: "env \<Rightarrow> args \<Rightarrow> state \<Rightarrow> (error + response) \<times> state" where
  "execute_old e a st =
     (let (torn, st1) =
            (if hasActiveSession st then callSafeDeleteSession e st else (Inr (), st))
      in case torn of
           Inl err \<Rightarrow> (Inl (failedToCreate err), st1)
         | Inr _ \<Rightarrow>
             (case createNewSession_old e a st1 of
                (Inl err, st2) \<Rightarrow> (Inl (failedToCreate err), st2)
              | (Inr r, st2) \<Rightarrow> (Inr r, st2)))"

section \<open>Observations and example inputs\<close>

text \<open>How often \<open>clearSelectedDevice\<close> has been called.\<close>

definition clearCount :: "state \<Rightarrow> nat" where
  "clearCount st = length (filter (\<lambda>c. c = ClearSelectedDevice) (calls st))"

text \<open>Reading a decimal numeral back, to say what \<open>showNat\<close> prints.\<close>

definition readNat :: "string \<Rightarrow> nat" where
  "readNat s = foldl (\<lambda>acc c. 10 * acc + (of_char c - 48)) 0 s"

text \<open>
  A machine with two simulators and one real device, no capability config, a teardown
  that throws, and drivers that hand out fixed session ids.
\<close>

definition exampleEnv :: env where
  "exampleEnv =
     \<lparr>getDevicesByType =
        (\<lambda>t. case t of Simulator \<Rightarrow> [''sim-A'', ''sim-B''] | Real \<Rightarrow> [''phone-1'']),
      safeDeleteSession = (\<lambda>store. (Inl (Error ''socket hang up''), store)),
      CAPABILITIES_CONFIG = None,
      readConfigFile = (\<lambda>path. Inl (Error ''ENOENT'')),
      createSession = (\<lambda>d c. Inr ''session-1''),
      newSession = (\<lambda>url c. Inr ''remote-1'')\<rparr>"

definition selectedSimulator :: state where
  "selectedSimulator =
     \<lparr>sel_device = Some ''UDID-1'', sel_deviceType = Some Simulator,
      sel_deviceInfo = Some \<lparr>info_name = Some ''iPhone 15'', info_platform = Some ''17.0''\<rparr>,
      activeSession = None, calls = []\<rparr>"

definition unselectedSimulator :: state where
  "unselectedSimulator =
     \<lparr>sel_device = None, sel_deviceType = Some Simulator, sel_deviceInfo = None,
      activeSession = None, calls = []\<rparr>"

definition unselectedReal :: state where
  "unselectedReal =
     \<lparr>sel_device = None, sel_deviceType = Some Real, sel_deviceInfo = None,
      activeSession = None, calls = []\<rparr>"

text \<open>A state in which a session is already active, and a plain local Android request.\<close>

definition busyState :: state where
  "busyState =
     \<lparr>sel_device = None, sel_deviceType = None, sel_deviceInfo = None,
      activeSession = Some (AndroidUiautomator2Driver, ''session-0''), calls = []\<rparr>"

definition androidArgs :: args where
  "androidArgs =
     \<lparr>arg_platform = ''android'', arg_capabilities = None, arg_remoteServerUrl = None\<rparr>"

section \<open>Basic facts\<close>

lemma spread_simps [simp]: "spread None = Map.empty" "spread (Some m) = m"
  by (simp_all add: spread_def)

lemma filterEmptyCapabilities_apply:
  "filterEmptyCapabilities m k = (if m k = Some (JString []) then None else m k)"
  by (simp add: filterEmptyCapabilities_def)

lemma exampleEnv_fields [simp]:
  "getDevicesByType exampleEnv Simulator = [''sim-A'', ''sim-B'']"
  "getDevicesByType exampleEnv Real = [''phone-1'']"
  "safeDeleteSession exampleEnv store = (Inl (Error ''socket hang up''), store)"
  "CAPABILITIES_CONFIG exampleEnv = None"
  "createSession exampleEnv d c = Inr ''session-1''"
  "newSession exampleEnv url c = Inr ''remote-1''"
  by (simp_all add: exampleEnv_def)

lemma selectedSimulator_fields [simp]:
  "sel_device selectedSimulator = Some ''UDID-1''"
  "sel_deviceType selectedSimulator = Some Simulator"
  "sel_deviceInfo selectedSimulator =
     Some \<lparr>info_name = Some ''iPhone 15'', info_platform = Some ''17.0''\<rparr>"
  "activeSession selectedSimulator = None"
  "calls selectedSimulator = []"
  by (simp_all add: selectedSimulator_def)

lemma unselectedSimulator_fields [simp]:
  "sel_device unselectedSimulator = None"
  "sel_deviceType unselectedSimulator = Some Simulator"
  "sel_deviceInfo unselectedSimulator = None"
  "calls unselectedSimulator = []"
  by (simp_all add: unselectedSimulator_def)

lemma unselectedReal_fields [simp]:
  "sel_device unselectedReal = None"
  "sel_deviceType unselectedReal = Some Real"
  "sel_deviceInfo unselectedReal = None"
  "calls unselectedReal = []"
  by (simp_all add: unselectedReal_def)

lemma busyState_fields [simp]:
  "sel_device busyState = None"
  "sel_deviceType busyState = None"
  "sel_deviceInfo busyState = None"
  "activeSession busyState = Some (AndroidUiautomator2Driver, ''session-0'')"
  "calls busyState = []"
  by (simp_all add: busyState_def)

lemma androidArgs_fields [simp]:
  "arg_platform androidArgs = ''android''"
  "arg_capabilities androidArgs = None"
  "arg_remoteServerUrl androidArgs = None"
  by (simp_all add: androidArgs_def)

lemma trim_example: "trim ''17.0'' = ''17.0''"
  by (simp add: trim_def isWhiteSpace_def)

lemma digitChar_value: "d < 10 \<Longrightarrow> of_char (digitChar d) = (48 + d :: nat)"
proof -
  assume "d < 10"
  then have "d \<in> {0,1,2,3,4,5,6,7,8,9}" by auto
  then show ?thesis by (auto simp add: digitChar_def)
qed

lemma readNat_snoc: "readNat (s @ [c]) = 10 * readNat s + (of_char c - 48)"
  by (simp add: readNat_def)

text \<open>The printed count reads back as the count.\<close>

lemma readNat_showNat: "readNat (showNat n) = n"
proof (induction n rule: showNat.induct)
  case (1 n)
  show ?case
  proof (cases "n < 10")
    case True
    then show ?thesis
      using digitChar_value [of n] by (simp add: readNat_def showNat.simps)
  next
    case False
    then have "readNat (showNat (n div 10)) = n div 10" using 1 by simp
    moreover have "of_char (digitChar (n mod 10)) = (48 + n mod 10 :: nat)"
      by (rule digitChar_value) simp
    ultimately show ?thesis
      using False by (subst showNat.simps) (simp add: readNat_snoc)
  qed
qed

lemma clearCount_clear: "clearCount (clearSelectedDevice st) = Suc (clearCount st)"
  by (simp add: clearCount_def clearSelectedDevice_def)

lemma clearCount_query:
  "clearCount (st\<lparr>calls := calls st @ [GetDevicesByType t]\<rparr>) = clearCount st"
  by (simp add: clearCount_def)

section \<open>What the functions compute\<close>

subsection \<open>Validation\<close>

lemma validateIOSDeviceSelection_None:
  "validateIOSDeviceSelection e None st = (Inr (), st)"
  by (simp add: validateIOSDeviceSelection_def)

lemma validateIOSDeviceSelection_Some:
  "validateIOSDeviceSelection e (Some t) st =
     (if 1 < length (getDevicesByType e t) \<and> \<not> truthy (sel_device st)
      then Inl (Error (ambiguousSelectionMessage t (length (getDevicesByType e t))))
      else Inr (),
      st\<lparr>calls := calls st @ [GetDevicesByType t]\<rparr>)"
  by (simp add: validateIOSDeviceSelection_def Let_def getSelectedDevice_def)

subsection \<open>The Android builder\<close>

lemma buildAndroid_fst:
  "fst (buildAndroidCapabilities configCaps customCaps isRemote st) =
     filterEmptyCapabilities
       (androidMergedCaps configCaps customCaps (if isRemote then None else getSelectedDevice st))"
  by (simp add: buildAndroidCapabilities_def Let_def)

lemma buildAndroid_snd:
  "snd (buildAndroidCapabilities configCaps customCaps isRemote st) =
     (if \<not> isRemote \<and> truthy (getSelectedDevice st) then clearSelectedDevice st else st)"
  by (simp add: buildAndroidCapabilities_def Let_def truthy_def)

subsection \<open>The iOS builder, by remoteness and selected device type\<close>

lemma buildIOS_remote:
  "buildIOSCapabilities e configCaps customCaps True st =
     (Inr (filterEmptyCapabilities (iosMergedCaps configCaps customCaps None None None)), st)"
  by (simp add: buildIOSCapabilities_def validateIOSDeviceSelection_None truthy_def)

lemma buildIOS_local_untyped:
  "sel_deviceType st = None \<Longrightarrow>
   buildIOSCapabilities e configCaps customCaps False st =
     (Inr (filterEmptyCapabilities
        (iosMergedCaps configCaps customCaps None (sel_device st) (sel_deviceInfo st))),
      if truthy (sel_device st) then clearSelectedDevice st else st)"
  by (simp add: buildIOSCapabilities_def validateIOSDeviceSelection_None
      getSelectedDeviceType_def getSelectedDevice_def getSelectedDeviceInfo_def Let_def)

lemma buildIOS_local_typed:
  "sel_deviceType st = Some t \<Longrightarrow>
   buildIOSCapabilities e configCaps customCaps False st =
     (if 1 < length (getDevicesByType e t) \<and> \<not> truthy (sel_device st)
      then (Inl (Error (ambiguousSelectionMessage t (length (getDevicesByType e t)))),
            st\<lparr>calls := calls st @ [GetDevicesByType t]\<rparr>)
      else (Inr (filterEmptyCapabilities
              (iosMergedCaps configCaps customCaps (Some t) (sel_device st) (sel_deviceInfo st))),
            if truthy (sel_device st)
            then clearSelectedDevice (st\<lparr>calls := calls st @ [GetDevicesByType t]\<rparr>)
            else st\<lparr>calls := calls st @ [GetDevicesByType t]\<rparr>))"
  by (simp add: buildIOSCapabilities_def validateIOSDeviceSelection_Some
      getSelectedDeviceType_def getSelectedDevice_def getSelectedDeviceInfo_def Let_def)

text \<open>
  The outcome of the iOS builder: the ambiguous-selection error exactly when the target
  is local, no device is selected and the device manager lists more than one device of
  the selected type; the filtered merge otherwise.
\<close>

lemma buildIOS_fst:
  "fst (buildIOSCapabilities e configCaps customCaps isRemote st) =
     (if \<not> isRemote \<and> \<not> truthy (getSelectedDevice st) \<and>
         (case getSelectedDeviceType st of None \<Rightarrow> False
          | Some t \<Rightarrow> 1 < length (getDevicesByType e t))
      then Inl (Error (ambiguousSelectionMessage (the (getSelectedDeviceType st))
                 (length (getDevicesByType e (the (getSelectedDeviceType st))))))
      else Inr (filterEmptyCapabilities
             (iosMergedCaps configCaps customCaps
                (if isRemote then None else getSelectedDeviceType st)
                (if isRemote then None else getSelectedDevice st)
                (if isRemote then None else getSelectedDeviceInfo st))))"
proof (cases isRemote)
  case True
  then show ?thesis by (simp add: buildIOS_remote)
next
  case False
  show ?thesis
  proof (cases "sel_deviceType st")
    case None
    with False show ?thesis
      by (simp add: buildIOS_local_untyped getSelectedDeviceType_def getSelectedDevice_def
          getSelectedDeviceInfo_def)
  next
    case (Some t)
    with False show ?thesis
      by (simp add: buildIOS_local_typed getSelectedDeviceType_def getSelectedDevice_def
          getSelectedDeviceInfo_def)
  qed
qed

lemma buildIOS_snd:
  "snd (buildIOSCapabilities e configCaps customCaps isRemote st) =
     (if isRemote then st
      else if truthy (getSelectedDevice st)
      then clearSelectedDevice
             (case getSelectedDeviceType st of None \<Rightarrow> st
              | Some t \<Rightarrow> st\<lparr>calls := calls st @ [GetDevicesByType t]\<rparr>)
      else (case getSelectedDeviceType st of None \<Rightarrow> st
            | Some t \<Rightarrow> st\<lparr>calls := calls st @ [GetDevicesByType t]\<rparr>))"
proof (cases isRemote)
  case True
  then show ?thesis by (simp add: buildIOS_remote)
next
  case False
  show ?thesis
  proof (cases "sel_deviceType st")
    case None
    with False show ?thesis
      by (simp add: buildIOS_local_untyped getSelectedDeviceType_def getSelectedDevice_def)
  next
    case (Some t)
    with False show ?thesis
      by (simp add: buildIOS_local_typed getSelectedDeviceType_def getSelectedDevice_def)
  qed
qed

subsection \<open>The merged objects\<close>

lemma androidMerged_platform_keys:
  "k = ''platformName'' \<or> k = ''appium:automationName'' \<Longrightarrow>
   androidMergedCaps configCaps customCaps u k =
     (case (configCaps ++ spread customCaps) k of
        None \<Rightarrow> androidDefaultCaps k | Some v \<Rightarrow> Some v)"
  by (auto simp add: androidMergedCaps_def udidCaps_def map_add_def split: option.splits)

lemma iosMerged_platform_keys:
  "k = ''platformName'' \<or> k = ''appium:automationName'' \<Longrightarrow>
   iosMergedCaps configCaps customCaps dt u i k =
     (case (configCaps ++ spread customCaps) k of
        None \<Rightarrow> iosDefaultCaps (iosDeviceName i) k | Some v \<Rightarrow> Some v)"
  by (auto simp add: iosMergedCaps_def udidCaps_def simulatorCaps_def platformVersionCaps_def
      map_add_def split: option.splits)

lemma androidMerged_custom:
  "spread customCaps k = Some v \<Longrightarrow> androidMergedCaps configCaps customCaps u k = Some v"
  by (simp add: androidMergedCaps_def map_add_def)

lemma iosMerged_custom:
  "spread customCaps k = Some v \<Longrightarrow> iosMergedCaps configCaps customCaps dt u i k = Some v"
  by (simp add: iosMergedCaps_def map_add_def)

lemma androidMerged_remote:
  "androidMergedCaps configCaps customCaps None =
     androidDefaultCaps ++ configCaps ++ spread customCaps"
  by (simp add: androidMergedCaps_def udidCaps_def)

lemma iosMerged_remote:
  "iosMergedCaps configCaps customCaps None None None =
     iosDefaultCaps ''iPhone Simulator'' ++ configCaps ++ spread customCaps"
  by (simp add: iosMergedCaps_def udidCaps_def simulatorCaps_def platformVersionCaps_def
      iosPlatformVersion_def iosDeviceName_def)

lemma android_platform_key_result:
  assumes "k = ''platformName'' \<or> k = ''appium:automationName''"
  shows "filterEmptyCapabilities (androidMergedCaps configCaps customCaps u) k =
     (case (configCaps ++ spread customCaps) k of
        None \<Rightarrow> androidDefaultCaps k
      | Some v \<Rightarrow> if v = JString [] then None else Some v)"
proof -
  have d: "androidDefaultCaps k \<noteq> Some (JString [])"
    using assms by (auto simp add: androidDefaultCaps_def)
  define m where "m = (configCaps ++ spread customCaps) k"
  show ?thesis
    unfolding filterEmptyCapabilities_apply androidMerged_platform_keys [OF assms]
      m_def [symmetric]
    using d by (cases m) simp_all
qed

lemma ios_platform_key_result:
  assumes "k = ''platformName'' \<or> k = ''appium:automationName''"
  shows "filterEmptyCapabilities (iosMergedCaps configCaps customCaps dt u di) k =
     (case (configCaps ++ spread customCaps) k of
        None \<Rightarrow> iosDefaultCaps (iosDeviceName di) k
      | Some v \<Rightarrow> if v = JString [] then None else Some v)"
proof -
  have d: "iosDefaultCaps (iosDeviceName di) k \<noteq> Some (JString [])"
    using assms by (auto simp add: iosDefaultCaps_def)
  define m where "m = (configCaps ++ spread customCaps) k"
  show ?thesis
    unfolding filterEmptyCapabilities_apply iosMerged_platform_keys [OF assms]
      m_def [symmetric]
    using d by (cases m) simp_all
qed

lemma platform_key_defaults:
  assumes "k = ''platformName'' \<or> k = ''appium:automationName''"
  shows "\<exists>v. androidDefaultCaps k = Some v" and "\<exists>v. iosDefaultCaps n k = Some v"
  using assms by (auto simp add: androidDefaultCaps_def iosDefaultCaps_def)

section \<open>Properties\<close>

subsection \<open>Precedence of the capability sources\<close>

text \<open>
  C1 as stated does not hold: the platform name and the automation engine are also
  overridden by the config-file capabilities, which are spread after the defaults. With
  the config file giving \<open>platformName = "Linux"\<close> and no custom capabilities, the
  Android builder returns \<open>platformName = "Linux"\<close>, not the default \<open>"Android"\<close>.
\<close>

theorem config_overrides_platform_default:
  "\<not> (spread None ''platformName'' = None \<longrightarrow>
       fst (buildAndroidCapabilities [''platformName'' \<mapsto> JString ''Linux''] None False
              unselectedSimulator) ''platformName'' = Some (JString ''Android''))"
  by (simp add: buildAndroid_fst filterEmptyCapabilities_apply androidMerged_platform_keys)

text \<open>
  C1, amended. For both builders, every config-file mapping, custom mapping, remote flag
  and device-selection state: \<open>platformName\<close> and \<open>appium:automationName\<close> of the returned
  set equal the fixed platform defaults (\<open>Android\<close>/\<open>UiAutomator2\<close>, \<open>iOS\<close>/\<open>XCUITest\<close>)
  whenever neither the config-file nor the custom capabilities supply the key; and every
  key that the custom capabilities give a value other than the empty string is in the
  result with exactly that value. The iOS builder returns a set unless the selection is
  ambiguous.
\<close>

theorem defaults_unless_supplied_and_custom_wins:
  "(let result = fst (buildAndroidCapabilities configCaps customCaps isRemote st)
    in (configCaps ''platformName'' = None \<and> spread customCaps ''platformName'' = None \<longrightarrow>
          result ''platformName'' = Some (JString ''Android'')) \<and>
       (configCaps ''appium:automationName'' = None \<and>
        spread customCaps ''appium:automationName'' = None \<longrightarrow>
          result ''appium:automationName'' = Some (JString ''UiAutomator2'')) \<and>
       (spread customCaps k = Some v \<and> v \<noteq> JString [] \<longrightarrow> result k = Some v)) \<and>
   (case fst (buildIOSCapabilities e configCaps customCaps isRemote st) of
      Inl err \<Rightarrow>
        \<not> isRemote \<and> \<not> truthy (getSelectedDevice st) \<and>
        (\<exists>t. getSelectedDeviceType st = Some t \<and> 1 < length (getDevicesByType e t))
    | Inr result \<Rightarrow>
        (configCaps ''platformName'' = None \<and> spread customCaps ''platformName'' = None \<longrightarrow>
           result ''platformName'' = Some (JString ''iOS'')) \<and>
        (configCaps ''appium:automationName'' = None \<and>
         spread customCaps ''appium:automationName'' = None \<longrightarrow>
           result ''appium:automationName'' = Some (JString ''XCUITest'')) \<and>
        (spread customCaps k = Some v \<and> v \<noteq> JString [] \<longrightarrow> result k = Some v))"
proof -
  have a: "configCaps ''platformName'' = None \<and> spread customCaps ''platformName'' = None \<Longrightarrow>
      filterEmptyCapabilities (androidMergedCaps configCaps customCaps u) ''platformName'' =
        Some (JString ''Android'')" for u
    by (simp add: filterEmptyCapabilities_apply androidMerged_platform_keys map_add_def
        androidDefaultCaps_def)
  have b: "configCaps ''appium:automationName'' = None \<and>
           spread customCaps ''appium:automationName'' = None \<Longrightarrow>
      filterEmptyCapabilities (androidMergedCaps configCaps customCaps u)
        ''appium:automationName'' = Some (JString ''UiAutomator2'')" for u
    by (simp add: filterEmptyCapabilities_apply androidMerged_platform_keys map_add_def
        androidDefaultCaps_def)
  have c: "spread customCaps k = Some v \<and> v \<noteq> JString [] \<Longrightarrow>
      filterEmptyCapabilities (androidMergedCaps configCaps customCaps u) k = Some v" for u
    by (simp add: filterEmptyCapabilities_apply androidMerged_custom)
  have a': "configCaps ''platformName'' = None \<and> spread customCaps ''platformName'' = None \<Longrightarrow>
      filterEmptyCapabilities (iosMergedCaps configCaps customCaps dt u i) ''platformName'' =
        Some (JString ''iOS'')" for dt u i
    by (simp add: filterEmptyCapabilities_apply iosMerged_platform_keys map_add_def
        iosDefaultCaps_def)
  have b': "configCaps ''appium:automationName'' = None \<and>
           spread customCaps ''appium:automationName'' = None \<Longrightarrow>
      filterEmptyCapabilities (iosMergedCaps configCaps customCaps dt u i)
        ''appium:automationName'' = Some (JString ''XCUITest'')" for dt u i
    by (simp add: filterEmptyCapabilities_apply iosMerged_platform_keys map_add_def
        iosDefaultCaps_def)
  have c': "spread customCaps k = Some v \<and> v \<noteq> JString [] \<Longrightarrow>
      filterEmptyCapabilities (iosMergedCaps configCaps customCaps dt u i) k = Some v" for dt u i
    by (simp add: filterEmptyCapabilities_apply iosMerged_custom)
  show ?thesis
    unfolding Let_def buildAndroid_fst buildIOS_fst
    using a b c a' b' c' by (simp split: option.splits)
qed

theorem defaults_unless_supplied_and_custom_wins_witness:
  "fst (buildAndroidCapabilities Map.empty (Some [''appium:app'' \<mapsto> JString ''/tmp/a.apk''])
          False unselectedSimulator) ''platformName'' = Some (JString ''Android'') \<and>
   fst (buildAndroidCapabilities Map.empty (Some [''appium:app'' \<mapsto> JString ''/tmp/a.apk''])
          False unselectedSimulator) ''appium:automationName'' = Some (JString ''UiAutomator2'') \<and>
   fst (buildAndroidCapabilities Map.empty (Some [''appium:app'' \<mapsto> JString ''/tmp/a.apk''])
          False unselectedSimulator) ''appium:app'' = Some (JString ''/tmp/a.apk'') \<and>
   (\<exists>result. fst (buildIOSCapabilities exampleEnv Map.empty
                    (Some [''appium:app'' \<mapsto> JString ''/tmp/a.apk'']) False selectedSimulator) =
                Inr result \<and>
              result ''platformName'' = Some (JString ''iOS'') \<and>
              result ''appium:automationName'' = Some (JString ''XCUITest'') \<and>
              result ''appium:app'' = Some (JString ''/tmp/a.apk''))"
  using defaults_unless_supplied_and_custom_wins [of Map.empty
      "Some [''appium:app'' \<mapsto> JString ''/tmp/a.apk'']" False
      unselectedSimulator "''appium:app''" "JString ''/tmp/a.apk''" exampleEnv]
    defaults_unless_supplied_and_custom_wins [of Map.empty
      "Some [''appium:app'' \<mapsto> JString ''/tmp/a.apk'']" False
      selectedSimulator "''appium:app''" "JString ''/tmp/a.apk''" exampleEnv]
  by (simp add: Let_def buildIOS_fst getSelectedDevice_def truthy_def)

subsection \<open>Remote targets\<close>

text \<open>
  C2 as stated does not hold: with \<open>isRemote\<close> true the returned set still contains
  \<open>appium:udid\<close> or a simulator-stability key when the custom (or config-file)
  capabilities supply it, whatever the device-selection state.
\<close>

theorem remote_build_keeps_supplied_udid:
  "fst (buildAndroidCapabilities Map.empty (Some [''appium:udid'' \<mapsto> JString ''REMOTE-7''])
          True selectedSimulator) ''appium:udid'' = Some (JString ''REMOTE-7'') \<and>
   (\<exists>result. fst (buildIOSCapabilities exampleEnv Map.empty
                    (Some [''appium:udid'' \<mapsto> JString ''REMOTE-7'',
                           ''appium:usePrebuiltWDA'' \<mapsto> JBoolean True])
                    True selectedSimulator) = Inr result \<and>
              result ''appium:udid'' = Some (JString ''REMOTE-7'') \<and>
              result ''appium:usePrebuiltWDA'' = Some (JBoolean True))"
  by (simp add: buildAndroid_fst buildIOS_remote filterEmptyCapabilities_apply
      androidMerged_custom iosMerged_custom)

text \<open>
  C2, amended. When \<open>isRemote\<close> is true, for every device-selection state both builders
  return the filtered merge of the platform defaults (with the iOS device name
  \<open>iPhone Simulator\<close>), the config-file capabilities and the custom capabilities, and
  leave the state as it was: the device selection contributes nothing. So the result has
  no \<open>appium:udid\<close>, no simulator-stability key and no \<open>appium:platformVersion\<close> unless
  the config-file or custom capabilities supply that key.
\<close>

theorem remote_build_ignores_device_selection:
  "buildAndroidCapabilities configCaps customCaps True st =
     (filterEmptyCapabilities (androidDefaultCaps ++ configCaps ++ spread customCaps), st) \<and>
   buildIOSCapabilities e configCaps customCaps True st =
     (Inr (filterEmptyCapabilities
             (iosDefaultCaps ''iPhone Simulator'' ++ configCaps ++ spread customCaps)), st) \<and>
   (k \<in> {''appium:udid'', ''appium:usePrebuiltWDA'', ''appium:wdaStartupRetries'',
          ''appium:wdaStartupRetryInterval'', ''appium:platformVersion''} \<and>
    configCaps k = None \<and> spread customCaps k = None \<longrightarrow>
      fst (buildAndroidCapabilities configCaps customCaps True st) k = None \<and>
      (\<exists>result. fst (buildIOSCapabilities e configCaps customCaps True st) = Inr result \<and>
                 result k = None))"
proof (intro conjI impI)
  show a: "buildAndroidCapabilities configCaps customCaps True st =
     (filterEmptyCapabilities (androidDefaultCaps ++ configCaps ++ spread customCaps), st)"
    by (simp add: buildAndroidCapabilities_def Let_def androidMerged_remote truthy_def)
  show i: "buildIOSCapabilities e configCaps customCaps True st =
     (Inr (filterEmptyCapabilities
             (iosDefaultCaps ''iPhone Simulator'' ++ configCaps ++ spread customCaps)), st)"
    by (simp add: buildIOS_remote iosMerged_remote)
  assume h: "k \<in> {''appium:udid'', ''appium:usePrebuiltWDA'', ''appium:wdaStartupRetries'',
          ''appium:wdaStartupRetryInterval'', ''appium:platformVersion''} \<and>
    configCaps k = None \<and> spread customCaps k = None"
  then have d: "androidDefaultCaps k = None" "iosDefaultCaps ''iPhone Simulator'' k = None"
    by (auto simp add: androidDefaultCaps_def iosDefaultCaps_def)
  show "fst (buildAndroidCapabilities configCaps customCaps True st) k = None"
    using h d by (simp add: a filterEmptyCapabilities_apply map_add_def)
  show "\<exists>result. fst (buildIOSCapabilities e configCaps customCaps True st) = Inr result \<and>
                 result k = None"
    using h d by (simp add: i filterEmptyCapabilities_apply map_add_def)
qed

theorem remote_build_ignores_device_selection_witness:
  "buildAndroidCapabilities Map.empty None True selectedSimulator =
     (filterEmptyCapabilities androidDefaultCaps, selectedSimulator) \<and>
   fst (buildAndroidCapabilities Map.empty None True selectedSimulator) ''appium:udid'' = None \<and>
   (\<exists>result. fst (buildIOSCapabilities exampleEnv Map.empty None True selectedSimulator) =
                Inr result \<and> result ''appium:udid'' = None)"
proof -
  from remote_build_ignores_device_selection
    [of Map.empty None selectedSimulator exampleEnv "''appium:udid''"]
  show ?thesis by auto
qed

subsection \<open>Presence of the platform keys\<close>

text \<open>
  C4 as stated does not hold: an empty-string \<open>platformName\<close> in the custom capabilities
  (or an empty-string \<open>appium:automationName\<close> in the config file) wins the merge and is
  then stripped by the filter, so the key is absent from the result.
\<close>

theorem blank_platform_key_is_stripped:
  "fst (buildAndroidCapabilities Map.empty (Some [''platformName'' \<mapsto> JString []]) False
          unselectedSimulator) ''platformName'' = None \<and>
   (\<exists>result. fst (buildIOSCapabilities exampleEnv [''appium:automationName'' \<mapsto> JString []] None
                    True unselectedSimulator) = Inr result \<and>
              result ''appium:automationName'' = None)"
  by (simp add: buildAndroid_fst buildIOS_remote filterEmptyCapabilities_apply
      androidMerged_custom iosMerged_platform_keys)

text \<open>
  C4, amended. For both builders and all inputs, each of the keys \<open>platformName\<close> and
  \<open>appium:automationName\<close> is in the returned set, mapped to some value, unless the
  config-file capabilities overridden by the custom capabilities give that key the empty
  string; in that case the key is absent. The iOS builder returns a set unless the
  selection is ambiguous.
\<close>

theorem platform_keys_present_unless_blank:
  "k = ''platformName'' \<or> k = ''appium:automationName'' \<Longrightarrow>
   (let result = fst (buildAndroidCapabilities configCaps customCaps isRemote st)
    in if (configCaps ++ spread customCaps) k = Some (JString [])
       then result k = None else (\<exists>v. result k = Some v)) \<and>
   (case fst (buildIOSCapabilities e configCaps customCaps isRemote st) of
      Inl err \<Rightarrow>
        \<not> isRemote \<and> \<not> truthy (getSelectedDevice st) \<and>
        (\<exists>t. getSelectedDeviceType st = Some t \<and> 1 < length (getDevicesByType e t))
    | Inr result \<Rightarrow>
        if (configCaps ++ spread customCaps) k = Some (JString [])
        then result k = None else (\<exists>v. result k = Some v))"
proof -
  assume k: "k = ''platformName'' \<or> k = ''appium:automationName''"
  note a = android_platform_key_result [OF k]
  note i = ios_platform_key_result [OF k]
  note d = platform_key_defaults [OF k]
  show ?thesis
  proof (cases "(configCaps ++ spread customCaps) k")
    case None
    then show ?thesis
      unfolding Let_def buildAndroid_fst buildIOS_fst
      using d by (simp add: a i split: option.splits)
  next
    case (Some v)
    then show ?thesis
      unfolding Let_def buildAndroid_fst buildIOS_fst
      by (simp add: a i split: option.splits)
  qed
qed

theorem platform_keys_present_unless_blank_witness:
  "(\<exists>v. fst (buildAndroidCapabilities Map.empty None False unselectedSimulator)
           ''platformName'' = Some v) \<and>
   (\<exists>result. fst (buildIOSCapabilities exampleEnv Map.empty None False selectedSimulator) =
                Inr result \<and> (\<exists>v. result ''platformName'' = Some v))"
proof -
  have t: "fst (buildIOSCapabilities exampleEnv Map.empty None False selectedSimulator) =
      Inr (filterEmptyCapabilities (iosMergedCaps Map.empty None (Some Simulator)
        (Some ''UDID-1'') (Some \<lparr>info_name = Some ''iPhone 15'', info_platform = Some ''17.0''\<rparr>)))"
    by (simp add: buildIOS_fst getSelectedDevice_def getSelectedDeviceType_def
        getSelectedDeviceInfo_def truthy_def)
  from platform_keys_present_unless_blank
      [of "''platformName''" Map.empty None False unselectedSimulator exampleEnv]
    platform_keys_present_unless_blank
      [of "''platformName''" Map.empty None False selectedSimulator exampleEnv]
  show ?thesis
    by (simp add: Let_def t)
qed

subsection \<open>The empty-string filter\<close>

text \<open>
  C6. For every input combination, no key of the capability set returned by either
  builder maps to the empty string: a key whose merged value is the empty string is
  removed after the merge, and every other key of the merged object is kept with its
  value. The iOS builder returns a set unless the selection is ambiguous.
\<close>

theorem no_empty_string_values:
  "(let merged = androidMergedCaps configCaps customCaps
                   (if isRemote then None else getSelectedDevice st);
        result = fst (buildAndroidCapabilities configCaps customCaps isRemote st)
    in result k \<noteq> Some (JString []) \<and>
       (merged k = Some (JString []) \<longrightarrow> result k = None) \<and>
       (merged k \<noteq> Some (JString []) \<longrightarrow> result k = merged k)) \<and>
   (case fst (buildIOSCapabilities e configCaps customCaps isRemote st) of
      Inl err \<Rightarrow>
        \<not> isRemote \<and> \<not> truthy (getSelectedDevice st) \<and>
        (\<exists>t. getSelectedDeviceType st = Some t \<and> 1 < length (getDevicesByType e t))
    | Inr result \<Rightarrow>
        (let merged = iosMergedCaps configCaps customCaps
                        (if isRemote then None else getSelectedDeviceType st)
                        (if isRemote then None else getSelectedDevice st)
                        (if isRemote then None else getSelectedDeviceInfo st)
         in result k \<noteq> Some (JString []) \<and>
            (merged k = Some (JString []) \<longrightarrow> result k = None) \<and>
            (merged k \<noteq> Some (JString []) \<longrightarrow> result k = merged k)))"
  by (simp add: buildAndroid_fst buildIOS_fst filterEmptyCapabilities_apply Let_def
      split: option.splits)

theorem no_empty_string_values_witness:
  "fst (buildAndroidCapabilities
          [''appium:app'' \<mapsto> JString [], ''appium:noReset'' \<mapsto> JBoolean True]
          None False selectedSimulator) ''appium:app'' = None \<and>
   fst (buildAndroidCapabilities
          [''appium:app'' \<mapsto> JString [], ''appium:noReset'' \<mapsto> JBoolean True]
          None False selectedSimulator) ''appium:noReset'' = Some (JBoolean True) \<and>
   (\<exists>result. fst (buildIOSCapabilities exampleEnv [''appium:app'' \<mapsto> JString []] None False
                  selectedSimulator) = Inr result \<and>
              result ''appium:app'' = None \<and>
              result ''appium:udid'' = Some (JString ''UDID-1''))"
  using no_empty_string_values
      [of "[''appium:app'' \<mapsto> JString [], ''appium:noReset'' \<mapsto> JBoolean True]" None False
        selectedSimulator "''appium:app''"]
    no_empty_string_values
      [of "[''appium:app'' \<mapsto> JString []]" None False selectedSimulator "''appium:udid''"
        exampleEnv]
  by (simp add: buildAndroid_fst buildIOS_fst filterEmptyCapabilities_apply
      androidMergedCaps_def iosMergedCaps_def androidDefaultCaps_def iosDefaultCaps_def
      udidCaps_def simulatorCaps_def platformVersionCaps_def iosPlatformVersion_def
      iosDeviceName_def getSelectedDevice_def getSelectedDeviceType_def
      getSelectedDeviceInfo_def truthy_def trim_example)

subsection \<open>A selected simulator on a local target\<close>

text \<open>
  C5. For iOS with no config-file and no custom capabilities, a local target, and a
  device-selection state holding a selected udid, the type simulator and the device info
  \<open>{name: "iPhone 15", platform: "17.0"}\<close>, \<open>buildIOSCapabilities\<close> returns a set with
  \<open>appium:deviceName = "iPhone 15"\<close>, \<open>appium:platformVersion = "17.0"\<close>, \<open>appium:udid\<close>
  equal to the selected udid, \<open>appium:usePrebuiltWDA = true\<close>,
  \<open>appium:wdaStartupRetries = 4\<close> and \<open>appium:wdaStartupRetryInterval = 20000\<close>.
\<close>

theorem buildIOSCapabilities_selected_simulator:
  assumes "getSelectedDevice st = Some udid" and "udid \<noteq> []"
    and "getSelectedDeviceType st = Some Simulator"
    and "getSelectedDeviceInfo st =
           Some \<lparr>info_name = Some ''iPhone 15'', info_platform = Some ''17.0''\<rparr>"
    and "customCaps = None \<or> customCaps = Some Map.empty"
  shows "\<exists>result.
           fst (buildIOSCapabilities e Map.empty customCaps False st) = Inr result \<and>
           result ''appium:deviceName'' = Some (JString ''iPhone 15'') \<and>
           result ''appium:platformVersion'' = Some (JString ''17.0'') \<and>
           result ''appium:udid'' = Some (JString udid) \<and>
           result ''appium:usePrebuiltWDA'' = Some (JBoolean True) \<and>
           result ''appium:wdaStartupRetries'' = Some (JNumber 4) \<and>
           result ''appium:wdaStartupRetryInterval'' = Some (JNumber 20000)"
proof -
  have sp: "spread customCaps = Map.empty"
    using assms(5) by (auto simp add: spread_def)
  have t: "truthy (getSelectedDevice st)"
    using assms(1,2) by (simp add: truthy_def)
  have "fst (buildIOSCapabilities e Map.empty customCaps False st) =
          Inr (filterEmptyCapabilities
                 (iosMergedCaps Map.empty customCaps (Some Simulator) (Some udid)
                    (Some \<lparr>info_name = Some ''iPhone 15'', info_platform = Some ''17.0''\<rparr>)))"
    using t assms(1,3,4) by (simp add: buildIOS_fst)
  moreover have
    "filterEmptyCapabilities
       (iosMergedCaps Map.empty customCaps (Some Simulator) (Some udid)
          (Some \<lparr>info_name = Some ''iPhone 15'', info_platform = Some ''17.0''\<rparr>)) k =
     [''platformName'' \<mapsto> JString ''iOS'',
      ''appium:automationName'' \<mapsto> JString ''XCUITest'',
      ''appium:deviceName'' \<mapsto> JString ''iPhone 15'',
      ''appium:platformVersion'' \<mapsto> JString ''17.0'',
      ''appium:udid'' \<mapsto> JString udid,
      ''appium:usePrebuiltWDA'' \<mapsto> JBoolean True,
      ''appium:wdaStartupRetries'' \<mapsto> JNumber 4,
      ''appium:wdaStartupRetryInterval'' \<mapsto> JNumber 20000] k" for k
    using assms(2)
    by (simp add: filterEmptyCapabilities_apply iosMergedCaps_def iosDefaultCaps_def
        iosDeviceName_def platformVersionCaps_def iosPlatformVersion_def udidCaps_def
        simulatorCaps_def sp trim_example map_add_def)
  ultimately show ?thesis by simp
qed

theorem buildIOSCapabilities_selected_simulator_witness:
  "\<exists>result.
     fst (buildIOSCapabilities exampleEnv Map.empty None False selectedSimulator) = Inr result \<and>
     result ''appium:deviceName'' = Some (JString ''iPhone 15'') \<and>
     result ''appium:platformVersion'' = Some (JString ''17.0'') \<and>
     result ''appium:udid'' = Some (JString ''UDID-1'') \<and>
     result ''appium:usePrebuiltWDA'' = Some (JBoolean True) \<and>
     result ''appium:wdaStartupRetries'' = Some (JNumber 4) \<and>
     result ''appium:wdaStartupRetryInterval'' = Some (JNumber 20000)"
  using buildIOSCapabilities_selected_simulator [of selectedSimulator "''UDID-1''" None exampleEnv]
  by (simp add: getSelectedDevice_def getSelectedDeviceType_def getSelectedDeviceInfo_def)

subsection \<open>Validation of the iOS device selection\<close>

text \<open>
  C3. For every device type that is present, \<open>validateIOSDeviceSelection\<close> succeeds
  whenever the device manager reports exactly one device of that type, selected or not;
  whenever it reports two or more and no device is selected, validation fails with a
  message that holds the exact device count in decimal. With the device type absent it
  succeeds and leaves the state, and with it the log of device-manager queries, untouched.
\<close>

theorem validateIOSDeviceSelection_outcomes:
  "(length (getDevicesByType e t) = 1 \<longrightarrow>
      fst (validateIOSDeviceSelection e (Some t) st) = Inr ()) \<and>
   (2 \<le> length (getDevicesByType e t) \<and> \<not> truthy (getSelectedDevice st) \<longrightarrow>
      fst (validateIOSDeviceSelection e (Some t) st) =
        Inl (Error (''Multiple iOS '' @ (if t = Simulator then ''simulators'' else ''devices'') @
                    '' found ('' @ showNat (length (getDevicesByType e t)) @
                    ''). Please use the select_device tool to choose which device to use before creating a session.'')) \<and>
      readNat (showNat (length (getDevicesByType e t))) = length (getDevicesByType e t)) \<and>
   validateIOSDeviceSelection e None st = (Inr (), st)"
  by (simp add: validateIOSDeviceSelection_Some validateIOSDeviceSelection_None
      getSelectedDevice_def ambiguousSelectionMessage_def readNat_showNat)

theorem validateIOSDeviceSelection_outcomes_witness:
  "fst (validateIOSDeviceSelection exampleEnv (Some Real) unselectedReal) = Inr () \<and>
   fst (validateIOSDeviceSelection exampleEnv (Some Simulator) unselectedSimulator) =
     Inl (Error ''Multiple iOS simulators found (2). Please use the select_device tool to choose which device to use before creating a session.'') \<and>
   validateIOSDeviceSelection exampleEnv None unselectedSimulator = (Inr (), unselectedSimulator)"
  using validateIOSDeviceSelection_outcomes [of exampleEnv Real unselectedReal]
    validateIOSDeviceSelection_outcomes [of exampleEnv Simulator unselectedSimulator]
  by (simp add: getSelectedDevice_def truthy_def digitChar_def showNat.simps)

subsection \<open>The device selection after a build\<close>

text \<open>
  C9. Whenever \<open>buildIOSCapabilities\<close> ends with an error, it is the ambiguous-selection
  error (local target, more than one device of the selected type, no device selected),
  and the device-selection state is as before: identifier, type and info are unchanged
  and \<open>clearSelectedDevice\<close> has not been called; only the device-manager query is logged.
\<close>

theorem ambiguous_selection_keeps_state:
  "fst (buildIOSCapabilities e configCaps customCaps isRemote st) = Inl err \<Longrightarrow>
   \<exists>t. \<not> isRemote \<and> getSelectedDeviceType st = Some t \<and>
       1 < length (getDevicesByType e t) \<and> \<not> truthy (getSelectedDevice st) \<and>
       err = Error (ambiguousSelectionMessage t (length (getDevicesByType e t))) \<and>
       snd (buildIOSCapabilities e configCaps customCaps isRemote st) =
         st\<lparr>calls := calls st @ [GetDevicesByType t]\<rparr> \<and>
       getSelectedDevice (snd (buildIOSCapabilities e configCaps customCaps isRemote st)) =
         getSelectedDevice st \<and>
       getSelectedDeviceType (snd (buildIOSCapabilities e configCaps customCaps isRemote st)) =
         getSelectedDeviceType st \<and>
       getSelectedDeviceInfo (snd (buildIOSCapabilities e configCaps customCaps isRemote st)) =
         getSelectedDeviceInfo st"
proof (cases isRemote)
  case True
  assume "fst (buildIOSCapabilities e configCaps customCaps isRemote st) = Inl err"
  with True show ?thesis by (simp add: buildIOS_remote)
next
  case False
  assume err: "fst (buildIOSCapabilities e configCaps customCaps isRemote st) = Inl err"
  show ?thesis
  proof (cases "sel_deviceType st")
    case None
    with False err show ?thesis by (simp add: buildIOS_local_untyped)
  next
    case (Some t)
    with False err show ?thesis
      by (auto simp add: buildIOS_local_typed getSelectedDeviceType_def getSelectedDevice_def
          getSelectedDeviceInfo_def split: if_splits)
  qed
qed

theorem ambiguous_selection_keeps_state_witness:
  "fst (buildIOSCapabilities exampleEnv Map.empty None False unselectedSimulator) =
     Inl (Error ''Multiple iOS simulators found (2). Please use the select_device tool to choose which device to use before creating a session.'') \<and>
   snd (buildIOSCapabilities exampleEnv Map.empty None False unselectedSimulator) =
     unselectedSimulator\<lparr>calls := [GetDevicesByType Simulator]\<rparr> \<and>
   getSelectedDevice (snd (buildIOSCapabilities exampleEnv Map.empty None False unselectedSimulator)) =
     getSelectedDevice unselectedSimulator"
proof -
  have h: "fst (buildIOSCapabilities exampleEnv Map.empty None False unselectedSimulator) =
     Inl (Error ''Multiple iOS simulators found (2). Please use the select_device tool to choose which device to use before creating a session.'')"
    by (simp add: buildIOS_fst getSelectedDevice_def getSelectedDeviceType_def
        truthy_def ambiguousSelectionMessage_def digitChar_def showNat.simps)
  from ambiguous_selection_keeps_state [OF h] show ?thesis
    using h by (auto simp add: getSelectedDeviceType_def)
qed

lemma getSelectedDevice_clear: "getSelectedDevice (clearSelectedDevice st) = None"
  by (simp add: getSelectedDevice_def clearSelectedDevice_def)

lemma consumed_identifier_cleared:
  assumes "\<not> isRemote \<and> truthy (getSelectedDevice st)"
    and "st' = snd (buildAndroidCapabilities configCaps customCaps isRemote st) \<or>
      st' = snd (buildIOSCapabilities e configCaps customCaps isRemote st)"
  shows "getSelectedDevice st' = None \<and> clearCount st' = Suc (clearCount st)"
  using assms
  by (auto simp add: buildAndroid_snd buildIOS_snd clearCount_clear clearCount_query
      getSelectedDevice_clear split: option.splits)

lemma unconsumed_selection_kept:
  assumes "isRemote \<or> \<not> truthy (getSelectedDevice st)"
    and "st' = snd (buildIOSCapabilities e configCaps customCaps isRemote st)"
  shows "getSelectedDevice st' = getSelectedDevice st \<and>
         getSelectedDeviceType st' = getSelectedDeviceType st \<and>
         getSelectedDeviceInfo st' = getSelectedDeviceInfo st \<and>
         clearCount st' = clearCount st"
  using assms
  by (auto simp add: buildIOS_snd clearCount_query getSelectedDevice_def
        getSelectedDeviceType_def getSelectedDeviceInfo_def split: option.splits)

text \<open>
  C8. For every build by either builder: if a device identifier was consumed (local
  target and a selected identifier present), the build returns the merge made with that
  identifier and the state left behind is the state with \<open>clearSelectedDevice\<close> applied
  once (one more call than before; for iOS after the logged device-manager query). If no
  identifier was consumed (remote target, or no device selected), the Android build
  leaves the state as it was, and the iOS build leaves identifier, type and info as they
  were and does not call \<open>clearSelectedDevice\<close>.
\<close>

theorem selected_device_cleared_iff_consumed:
  "(\<not> isRemote \<and> truthy (getSelectedDevice st) \<longrightarrow>
      buildAndroidCapabilities configCaps customCaps isRemote st =
        (filterEmptyCapabilities (androidMergedCaps configCaps customCaps (getSelectedDevice st)),
         clearSelectedDevice st) \<and>
      clearCount (snd (buildAndroidCapabilities configCaps customCaps isRemote st)) =
        Suc (clearCount st) \<and>
      buildIOSCapabilities e configCaps customCaps isRemote st =
        (Inr (filterEmptyCapabilities
               (iosMergedCaps configCaps customCaps (getSelectedDeviceType st)
                  (getSelectedDevice st) (getSelectedDeviceInfo st))),
         clearSelectedDevice
           (case getSelectedDeviceType st of None \<Rightarrow> st
            | Some t \<Rightarrow> st\<lparr>calls := calls st @ [GetDevicesByType t]\<rparr>)) \<and>
      clearCount (snd (buildIOSCapabilities e configCaps customCaps isRemote st)) =
        Suc (clearCount st)) \<and>
   (isRemote \<or> \<not> truthy (getSelectedDevice st) \<longrightarrow>
      snd (buildAndroidCapabilities configCaps customCaps isRemote st) = st \<and>
      getSelectedDevice (snd (buildIOSCapabilities e configCaps customCaps isRemote st)) =
        getSelectedDevice st \<and>
      getSelectedDeviceType (snd (buildIOSCapabilities e configCaps customCaps isRemote st)) =
        getSelectedDeviceType st \<and>
      getSelectedDeviceInfo (snd (buildIOSCapabilities e configCaps customCaps isRemote st)) =
        getSelectedDeviceInfo st \<and>
      clearCount (snd (buildIOSCapabilities e configCaps customCaps isRemote st)) =
        clearCount st)"
proof (intro conjI impI)
  assume h: "\<not> isRemote \<and> truthy (getSelectedDevice st)"
  show "buildAndroidCapabilities configCaps customCaps isRemote st =
        (filterEmptyCapabilities (androidMergedCaps configCaps customCaps (getSelectedDevice st)),
         clearSelectedDevice st)"
    using h by (simp add: buildAndroidCapabilities_def Let_def)
  show "clearCount (snd (buildAndroidCapabilities configCaps customCaps isRemote st)) =
        Suc (clearCount st)"
    using h by (simp add: buildAndroid_snd clearCount_clear)
  show "buildIOSCapabilities e configCaps customCaps isRemote st =
        (Inr (filterEmptyCapabilities
               (iosMergedCaps configCaps customCaps (getSelectedDeviceType st)
                  (getSelectedDevice st) (getSelectedDeviceInfo st))),
         clearSelectedDevice
           (case getSelectedDeviceType st of None \<Rightarrow> st
            | Some t \<Rightarrow> st\<lparr>calls := calls st @ [GetDevicesByType t]\<rparr>))"
    using h by (simp only: prod_eq_iff fst_conv snd_conv buildIOS_fst buildIOS_snd) simp
  show "clearCount (snd (buildIOSCapabilities e configCaps customCaps isRemote st)) =
        Suc (clearCount st)"
    using h consumed_identifier_cleared [of isRemote st _ configCaps customCaps e] by blast
next
  assume h: "isRemote \<or> \<not> truthy (getSelectedDevice st)"
  show "snd (buildAndroidCapabilities configCaps customCaps isRemote st) = st"
    using h by (auto simp add: buildAndroid_snd)
  from unconsumed_selection_kept [OF h refl, of e configCaps customCaps]
  show "getSelectedDevice (snd (buildIOSCapabilities e configCaps customCaps isRemote st)) =
        getSelectedDevice st"
    and "getSelectedDeviceType (snd (buildIOSCapabilities e configCaps customCaps isRemote st)) =
        getSelectedDeviceType st"
    and "getSelectedDeviceInfo (snd (buildIOSCapabilities e configCaps customCaps isRemote st)) =
        getSelectedDeviceInfo st"
    and "clearCount (snd (buildIOSCapabilities e configCaps customCaps isRemote st)) =
        clearCount st"
    by simp_all
qed

theorem selected_device_cleared_iff_consumed_witness:
  "snd (buildAndroidCapabilities Map.empty None False selectedSimulator) =
     clearSelectedDevice selectedSimulator \<and>
   getSelectedDevice (snd (buildAndroidCapabilities Map.empty None False selectedSimulator)) =
     None \<and>
   clearCount (snd (buildIOSCapabilities exampleEnv Map.empty None False selectedSimulator)) =
     1 \<and>
   snd (buildAndroidCapabilities Map.empty None True selectedSimulator) = selectedSimulator \<and>
   getSelectedDevice (snd (buildIOSCapabilities exampleEnv Map.empty None True selectedSimulator)) =
     Some ''UDID-1'' \<and>
   clearCount (snd (buildIOSCapabilities exampleEnv Map.empty None True selectedSimulator)) = 0"
proof -
  have t: "truthy (getSelectedDevice selectedSimulator)"
    by (simp add: truthy_def getSelectedDevice_def)
  have z: "clearCount selectedSimulator = 0"
    by (simp add: clearCount_def)
  note local = selected_device_cleared_iff_consumed
    [of False selectedSimulator Map.empty None exampleEnv]
  note remote = selected_device_cleared_iff_consumed
    [of True selectedSimulator Map.empty None exampleEnv]
  have "buildAndroidCapabilities Map.empty None False selectedSimulator =
      (filterEmptyCapabilities (androidMergedCaps Map.empty None
         (getSelectedDevice selectedSimulator)), clearSelectedDevice selectedSimulator)"
    using local t by blast
  then have a: "snd (buildAndroidCapabilities Map.empty None False selectedSimulator) =
      clearSelectedDevice selectedSimulator"
    by simp
  have "clearCount (snd (buildIOSCapabilities exampleEnv Map.empty None False
      selectedSimulator)) = Suc (clearCount selectedSimulator)"
    using local t by blast
  then have b: "clearCount (snd (buildIOSCapabilities exampleEnv Map.empty None False
      selectedSimulator)) = 1"
    using z by simp
  have c: "snd (buildAndroidCapabilities Map.empty None True selectedSimulator) =
      selectedSimulator"
    using remote by blast
  have "getSelectedDevice (snd (buildIOSCapabilities exampleEnv Map.empty None True
      selectedSimulator)) = getSelectedDevice selectedSimulator"
    using remote by blast
  then have d: "getSelectedDevice (snd (buildIOSCapabilities exampleEnv Map.empty None True
      selectedSimulator)) = Some ''UDID-1''"
    by (simp add: getSelectedDevice_def)
  have "clearCount (snd (buildIOSCapabilities exampleEnv Map.empty None True
      selectedSimulator)) = clearCount selectedSimulator"
    using remote by blast
  then have e: "clearCount (snd (buildIOSCapabilities exampleEnv Map.empty None True
      selectedSimulator)) = 0"
    using z by simp
  show ?thesis
    using a b c d e by (simp add: getSelectedDevice_clear)
qed

subsection \<open>The older Android builder\<close>

text \<open>
  C10. For every config capability mapping, custom capability mapping and device-selection
  state, the older \<open>buildAndroidCapabilities\<close> returns the same capability set and leaves
  the same state (cleared or not) as the current one called with \<open>isRemoteServer = false\<close>.
\<close>

theorem buildAndroidCapabilities_old_eq_local:
  "buildAndroidCapabilities_old configCaps customCaps st =
     buildAndroidCapabilities configCaps customCaps False st"
  by (simp add: buildAndroidCapabilities_old_def buildAndroidCapabilities_def
      androidMergedCaps_def)

subsection \<open>Teardown of a prior session\<close>

text \<open>
  The current \<open>execute\<close> ignores what the teardown of a prior session returns: it behaves
  as if the teardown had succeeded and left the same store behind.
\<close>

lemma loadCapabilitiesConfig_ignores_teardown:
  "loadCapabilitiesConfig (e\<lparr>safeDeleteSession := f\<rparr>) st = loadCapabilitiesConfig e st"
  by (simp add: loadCapabilitiesConfig_def Let_def split: option.splits sum.splits)

lemma validateIOSDeviceSelection_ignores_teardown:
  "validateIOSDeviceSelection (e\<lparr>safeDeleteSession := f\<rparr>) dt st =
     validateIOSDeviceSelection e dt st"
  by (cases dt) (simp_all add: validateIOSDeviceSelection_None validateIOSDeviceSelection_Some)

lemma buildIOS_ignores_teardown:
  "buildIOSCapabilities (e\<lparr>safeDeleteSession := f\<rparr>) c cu r st = buildIOSCapabilities e c cu r st"
  by (simp add: buildIOSCapabilities_def validateIOSDeviceSelection_ignores_teardown)

lemma localSession_ignores_teardown:
  "localSession (e\<lparr>safeDeleteSession := f\<rparr>) p c st = localSession e p c st"
  by (simp add: localSession_def createDriverSession_def split: sum.splits)

lemma remoteSession_ignores_teardown:
  "remoteSession (e\<lparr>safeDeleteSession := f\<rparr>) u c st = remoteSession e u c st"
  by (simp add: remoteSession_def)

lemma createNewSession_ignores_teardown:
  "createNewSession (e\<lparr>safeDeleteSession := f\<rparr>) a st = createNewSession e a st"
  by (simp add: createNewSession_def loadCapabilitiesConfig_ignores_teardown
      buildIOS_ignores_teardown localSession_ignores_teardown remoteSession_ignores_teardown
      Let_def
      cong: prod.case_cong sum.case_cong option.case_cong if_cong)

lemma execute_teardown_outcome_irrelevant:
  "execute e a st =
     execute (e\<lparr>safeDeleteSession := (\<lambda>store. (Inr (), snd (safeDeleteSession e store)))\<rparr>) a st"
  by (simp add: execute_def createNewSession_ignores_teardown callSafeDeleteSession_def
      hasActiveSession_def split: prod.splits)

lemma execute_teardown_failure_swallowed:
  assumes "hasActiveSession st" and "callSafeDeleteSession e st = (Inl err, st1)"
  shows "execute e a st =
     (case createNewSession e a st1 of
        (Inl x, st2) \<Rightarrow> (Inl (failedToCreate x), st2)
      | (Inr r, st2) \<Rightarrow> (Inr r, st2))"
  using assms by (simp add: execute_def)

text \<open>Every step only appends to the log of collaborator calls.\<close>

lemma loadCapabilitiesConfig_calls:
  "calls (snd (loadCapabilitiesConfig e st)) = calls st @ [LoadCapabilitiesConfig]"
  by (simp add: loadCapabilitiesConfig_def Let_def split: option.splits sum.splits)

lemma buildAndroid_calls:
  "\<exists>rest. calls (snd (buildAndroidCapabilities c cu r st)) = calls st @ rest"
  by (simp add: buildAndroid_snd clearSelectedDevice_def)

lemma buildIOS_calls:
  "\<exists>rest. calls (snd (buildIOSCapabilities e c cu r st)) = calls st @ rest"
  by (simp add: buildIOS_snd clearSelectedDevice_def split: option.splits)

lemma localSession_calls:
  "\<exists>rest. calls (snd (localSession e p c st)) = calls st @ rest"
  by (simp add: localSession_def createDriverSession_def setSession_def
      split: sum.splits prod.splits)

lemma remoteSession_calls:
  "\<exists>rest. calls (snd (remoteSession e u c st)) = calls st @ rest"
  by (simp add: remoteSession_def setSession_def Let_def split: sum.splits)

lemma createNewSession_calls:
  "\<exists>rest. calls (snd (createNewSession e a st)) = calls st @ [LoadCapabilitiesConfig] @ rest"
proof -
  obtain cfg st1 where l: "loadCapabilitiesConfig e st = (cfg, st1)"
    by (cases "loadCapabilitiesConfig e st")
  then have c1: "calls st1 = calls st @ [LoadCapabilitiesConfig]"
    using loadCapabilitiesConfig_calls [of e st] by simp
  define built where "built =
     (if arg_platform a = ''android''
      then (case buildAndroidCapabilities (android cfg) (arg_capabilities a)
                   (truthy (arg_remoteServerUrl a)) st1 of (c, s) \<Rightarrow> (Inr c, s))
      else buildIOSCapabilities e (ios cfg) (arg_capabilities a)
             (truthy (arg_remoteServerUrl a)) st1)"
  obtain b st2 where b: "built = (b, st2)" by (cases built)
  have "\<exists>rest. calls (snd built) = calls st1 @ rest"
    using buildAndroid_calls [of "android cfg" "arg_capabilities a"
        "truthy (arg_remoteServerUrl a)" st1]
      buildIOS_calls [of e "ios cfg" "arg_capabilities a" "truthy (arg_remoteServerUrl a)" st1]
    by (auto simp add: built_def split: prod.splits)
  then obtain r2 where c2: "calls st2 = calls st1 @ r2" using b by auto
  have e: "createNewSession e a st =
     (case b of
        Inl err \<Rightarrow> (Inl err, st2)
      | Inr finalCapabilities \<Rightarrow>
          (case arg_remoteServerUrl a of
             None \<Rightarrow> localSession e (arg_platform a) finalCapabilities st2
           | Some url \<Rightarrow>
               if url \<noteq> [] then remoteSession e url finalCapabilities st2
               else localSession e (arg_platform a) finalCapabilities st2))"
    using l b by (simp add: createNewSession_def Let_def built_def split: if_splits)
  have "\<exists>rest. calls (snd (createNewSession e a st)) = calls st2 @ rest"
    using localSession_calls [of e "arg_platform a" _ st2] remoteSession_calls [of e _ _ st2]
    by (auto simp add: e split: sum.splits option.splits)
  then show ?thesis using c1 c2 by auto
qed

text \<open>
  With a session active, the current \<open>execute\<close> always goes from the teardown on to the
  loading of the config, whatever the teardown returned.
\<close>

lemma execute_proceeds_after_teardown:
  assumes "hasActiveSession st"
  shows "\<exists>rest. calls (snd (execute e a st)) =
           calls st @ [SafeDeleteSession, LoadCapabilitiesConfig] @ rest"
proof -
  have "calls (snd (callSafeDeleteSession e st)) = calls st @ [SafeDeleteSession]"
    by (simp add: callSafeDeleteSession_def split: prod.splits)
  moreover have "calls (snd (execute e a st)) =
      calls (snd (createNewSession e a (snd (callSafeDeleteSession e st))))"
    using assms by (simp add: execute_def split: prod.splits sum.splits)
  ultimately show ?thesis
    using createNewSession_calls [of e a "snd (callSafeDeleteSession e st)"] by auto
qed

text \<open>
  The older \<open>execute\<close> awaits the teardown inside the outer \<open>try\<close> only: a failing
  teardown is rethrown as the failure of the whole call, before the config is loaded.
\<close>

lemma execute_old_teardown_failure:
  assumes "hasActiveSession st" and "callSafeDeleteSession e st = (Inl err, st1)"
  shows "execute_old e a st = (Inl (failedToCreate err), st1)"
  using assms by (simp add: execute_old_def)

lemma busyState_teardown:
  "callSafeDeleteSession exampleEnv busyState =
     (Inl (Error ''socket hang up''), busyState\<lparr>calls := [SafeDeleteSession]\<rparr>)"
  by (simp add: callSafeDeleteSession_def busyState_def)

lemma createNewSession_android_example:
  "createNewSession exampleEnv androidArgs st =
     (Inr \<lparr>resp_sessionId = ''session-1'',
           resp_capabilities = fst (buildAndroidCapabilities Map.empty None False
              (st\<lparr>calls := calls st @ [LoadCapabilitiesConfig]\<rparr>))\<rparr>,
      setSession AndroidUiautomator2Driver ''session-1''
        ((snd (buildAndroidCapabilities Map.empty None False
              (st\<lparr>calls := calls st @ [LoadCapabilitiesConfig]\<rparr>)))
           \<lparr>calls := calls (snd (buildAndroidCapabilities Map.empty None False
              (st\<lparr>calls := calls st @ [LoadCapabilitiesConfig]\<rparr>))) @
              [CreateSession AndroidUiautomator2Driver]\<rparr>))"
  by (simp add: createNewSession_def loadCapabilitiesConfig_def emptyConfig_def Let_def
      truthy_def localSession_def createDriverForPlatform_def createDriverSession_def
      split: prod.splits)

text \<open>
  On the example below the current \<open>execute\<close> goes on after the failed teardown: it loads
  the config, builds the capabilities, creates the session and registers it.
\<close>

lemma execute_example_proceeds:
  "\<exists>r st'. execute exampleEnv androidArgs busyState = (Inr r, st') \<and>
     resp_sessionId r = ''session-1'' \<and>
     resp_capabilities r ''platformName'' = Some (JString ''Android'') \<and>
     activeSession st' = Some (AndroidUiautomator2Driver, ''session-1'') \<and>
     calls st' = [SafeDeleteSession, LoadCapabilitiesConfig,
                  CreateSession AndroidUiautomator2Driver, SetSession]"
  by (simp add: execute_teardown_failure_swallowed [OF _ busyState_teardown]
      hasActiveSession_def createNewSession_android_example buildAndroid_fst buildAndroid_snd
      setSession_def getSelectedDevice_def truthy_def filterEmptyCapabilities_apply
      androidMerged_platform_keys androidDefaultCaps_def)

text \<open>
  C7. A failing teardown of the prior session must not surface and must not keep the call
  from loading the config, building the capabilities and dispatching. The older
  \<open>execute\<close> breaks this: with a session active and a teardown that throws
  \<open>socket hang up\<close>, a local Android request fails with
  \<open>Failed to create session: socket hang up\<close>, and the only collaborator call made is
  the teardown.
\<close>

theorem execute_old_surfaces_teardown_failure:
  "hasActiveSession busyState \<and>
   fst (callSafeDeleteSession exampleEnv busyState) = Inl (Error ''socket hang up'') \<and>
   execute_old exampleEnv androidArgs busyState =
     (Inl (Error ''Failed to create session: socket hang up''),
      busyState\<lparr>calls := [SafeDeleteSession]\<rparr>)"
  by (simp add: execute_old_def hasActiveSession_def busyState_teardown failedToCreate_def)

end
